theory Spec2Isabelle
  imports Complex_Main
begin

section \<open>Records and their rendering\<close>

text \<open>
  \<^verbatim>\<open>load_test_data\<close> returns one \<^verbatim>\<open>json.loads\<close> result per line of the test file. The
  evaluation reads each of them with \<^verbatim>\<open>d.get\<close>, so a record is a Python dict from field
  names to JSON values. The values modelled are \<^verbatim>\<open>None\<close>, strings, booleans and integers;
  JSON floats, arrays and objects also print through \<^verbatim>\<open>str()\<close> and are left out, since
  nothing below depends on how they print.
\<close>

datatype py_value = PyNone | PyStr string | PyBool bool | PyInt int

type_synonym py_dict = "string \<rightharpoonup> py_value"

text \<open>Decimal digits of a natural number, most significant first.\<close>

function dec_nat :: "nat \<Rightarrow> string" where
  "dec_nat n =
     (if n < 10 then [char_of (48 + n)]
      else dec_nat (n div 10) @ [char_of (48 + n mod 10)])"
  by pat_completeness auto
termination
  by (relation "measure id") auto

declare dec_nat.simps [simp del]

text \<open>
  What a replacement field \<^verbatim>\<open>{v}\<close> of an f-string inserts: \<^verbatim>\<open>format(v, '')\<close>, which is
  \<^verbatim>\<open>str(v)\<close> for each of these values.
\<close>

fun py_str :: "py_value \<Rightarrow> string" where
  "py_str PyNone = ''None''"
| "py_str (PyStr s) = s"
| "py_str (PyBool b) = (if b then ''True'' else ''False'')"
| "py_str (PyInt i) = (if i < 0 then ''-'' @ dec_nat (nat (- i)) else dec_nat (nat i))"

text \<open>\<^verbatim>\<open>d.get(key, default)\<close>: the default is returned only when the key is absent.\<close>

definition dict_get :: "py_dict \<Rightarrow> string \<Rightarrow> py_value \<Rightarrow> py_value" where
  "dict_get d k dflt = (case d k of None \<Rightarrow> dflt | Some v \<Rightarrow> v)"

text \<open>
  Line 43, the text scored for one record:
  \<^verbatim>\<open>f"Subject: {d.get('subject', '')}\n\n{d.get('body', '')}"\<close>
\<close>

definition render :: "py_dict \<Rightarrow> string" where
  "render d =
     ''Subject: '' @ py_str (dict_get d ''subject'' (PyStr ''''))
       @ ''\<newline>\<newline>'' @ py_str (dict_get d ''body'' (PyStr ''''))"

text \<open>
  The text of a field as the specification reads it: the field's string, and the empty
  string when the field is missing.
\<close>

definition field_text :: "py_dict \<Rightarrow> string \<Rightarrow> string" where
  "field_text d k = (case d k of Some (PyStr s) \<Rightarrow> s | _ \<Rightarrow> '''')"

definition text_or_missing :: "py_dict \<Rightarrow> string \<Rightarrow> bool" where
  "text_or_missing d k = (case d k of None \<Rightarrow> True | Some (PyStr s) \<Rightarrow> True | Some _ \<Rightarrow> False)"

section \<open>Batching\<close>

datatype py_error = ValueError | ZeroDivisionError

text \<open>
  Line 39, \<^verbatim>\<open>range(0, len(data), batch_size)\<close>. With a positive step the range counts up
  from the start while it is below the stop; a zero step raises \<^verbatim>\<open>ValueError\<close>; a negative
  step from 0 towards a stop that is not negative gives the empty range.
\<close>

function range_from :: "nat \<Rightarrow> nat \<Rightarrow> nat \<Rightarrow> nat list" where
  "range_from i n step =
     (if 0 < step \<and> i < n then i # range_from (i + step) n step else [])"
  by pat_completeness auto
termination
  by (relation "measure (\<lambda>(i, n, step). n - i)") auto

declare range_from.simps [simp del]

definition py_range :: "nat \<Rightarrow> int \<Rightarrow> py_error + nat list" where
  "py_range n step =
     (if step = 0 then Inl ValueError
      else if step < 0 then Inr []
      else Inr (range_from 0 n (nat step)))"

text \<open>
  Line 40, \<^verbatim>\<open>data[i:i+batch_size]\<close>: a slice with bounds that are not negative; a bound
  beyond the end of the list is cut to the end.
\<close>

definition py_slice :: "'a list \<Rightarrow> nat \<Rightarrow> nat \<Rightarrow> 'a list" where
  "py_slice xs lo hi = take (hi - lo) (drop lo xs)"

text \<open>The values the loop variable \<^verbatim>\<open>batch\<close> takes, in order, for a positive batch size.\<close>

definition batches :: "'a list \<Rightarrow> nat \<Rightarrow> 'a list list" where
  "batches data bs = map (\<lambda>i. py_slice data i (i + bs)) (range_from 0 (length data) bs)"

section \<open>Scoring and aggregation\<close>

text \<open>
  The tokenizer and the model come from the \<^verbatim>\<open>transformers\<close> library and are parameters
  here. A tokenizer call (lines 45 to 51) takes the texts of a batch and \<^verbatim>\<open>max_length\<close> and
  returns the padded token ids with the attention mask, one row per text, 1 for a token
  and 0 for padding. A model call (line 53) returns the mean loss of the batch, read at
  line 56 as a Python float.

  Python floats are modelled by the real numbers they stand for: a loss is a finite
  number, and sums, products and quotients of finite numbers are exact. Rounding is not
  modelled.
\<close>

record encodings =
  input_ids :: "nat list list"
  attention_mask :: "nat list list"

type_synonym tokenizer = "string list \<Rightarrow> int \<Rightarrow> encodings"

type_synonym causal_lm = "encodings \<Rightarrow> real"

text \<open>Line 57, \<^verbatim>\<open>encodings['attention_mask'].sum().item()\<close>.\<close>

definition num_tokens :: "encodings \<Rightarrow> nat" where
  "num_tokens enc = sum_list (map sum_list (attention_mask enc))"

text \<open>
  Lines 39 to 60: the loop over the start indices of the batches, with the two running
  totals as its state.
\<close>

fun eval_loop ::
  "causal_lm \<Rightarrow> tokenizer \<Rightarrow> py_dict list \<Rightarrow> nat \<Rightarrow> int \<Rightarrow> nat list \<Rightarrow> real \<times> nat \<Rightarrow> real \<times> nat"
where
  "eval_loop model tok data bs max_length [] totals = totals"
| "eval_loop model tok data bs max_length (i # ks) (total_loss, total_tokens) =
     (let batch = py_slice data i (i + bs);
          texts = map render batch;
          enc = tok texts max_length;
          loss = model enc;
          n = num_tokens enc
      in eval_loop model tok data bs max_length ks
           (total_loss + loss * real n, total_tokens + n))"

text \<open>
  The result of \<^verbatim>\<open>np.exp\<close> is a \<^verbatim>\<open>numpy.float64\<close>, which has the values \<^verbatim>\<open>inf\<close>, \<^verbatim>\<open>-inf\<close> and
  \<^verbatim>\<open>nan\<close> besides the finite ones. Where the exponential is larger than the largest finite
  double, \<^verbatim>\<open>np.exp\<close> returns \<^verbatim>\<open>inf\<close>; numpy reports the overflow as a \<^verbatim>\<open>RuntimeWarning\<close>,
  which is printed and does not stop the program (the source changes neither numpy's
  error state nor the warning filter).
\<close>

datatype np_float = Finite real | PosInf | NegInf | NaN

definition DBL_MAX :: real where
  "DBL_MAX = (2 - 1 / 2 ^ 52) * 2 ^ 1023"

definition np_exp :: "real \<Rightarrow> np_float" where
  "np_exp x = (if exp x \<le> DBL_MAX then Finite (exp x) else PosInf)"

text \<open>
  Lines 30 to 65. The division at line 62 is a division of Python numbers and raises
  \<^verbatim>\<open>ZeroDivisionError\<close> when \<^verbatim>\<open>total_tokens\<close> is 0.
\<close>

definition compute_perplexity ::
  "causal_lm \<Rightarrow> tokenizer \<Rightarrow> py_dict list \<Rightarrow> int \<Rightarrow> int \<Rightarrow> py_error + np_float"
where
  "compute_perplexity model tok data batch_size max_length =
     (case py_range (length data) batch_size of
        Inl e \<Rightarrow> Inl e
      | Inr ks \<Rightarrow>
          (case eval_loop model tok data (nat batch_size) max_length ks (0, 0) of
             (total_loss, total_tokens) \<Rightarrow>
               if total_tokens = 0 then Inl ZeroDivisionError
               else Inr (np_exp (total_loss / real total_tokens))))"

text \<open>
  The per-batch results the loop adds up: for each batch its mean loss and the token
  count that weights it.
\<close>

definition batch_score :: "causal_lm \<Rightarrow> tokenizer \<Rightarrow> int \<Rightarrow> py_dict list \<Rightarrow> real \<times> nat" where
  "batch_score model tok max_length batch =
     (let enc = tok (map render batch) max_length in (model enc, num_tokens enc))"

definition batch_scores ::
  "causal_lm \<Rightarrow> tokenizer \<Rightarrow> py_dict list \<Rightarrow> int \<Rightarrow> int \<Rightarrow> (real \<times> nat) list"
where
  "batch_scores model tok data batch_size max_length =
     map (batch_score model tok max_length) (batches data (nat batch_size))"

text \<open>
  What the model is called with during a run, batch by batch: the encodings of the
  rendered batches. Neither the batches nor their encodings depend on the model.
\<close>

definition model_inputs :: "tokenizer \<Rightarrow> py_dict list \<Rightarrow> int \<Rightarrow> int \<Rightarrow> encodings list" where
  "model_inputs tok data batch_size max_length =
     map (\<lambda>batch. tok (map render batch) max_length) (batches data (nat batch_size))"

fun weighted_loss :: "(real \<times> nat) list \<Rightarrow> real" where
  "weighted_loss [] = 0"
| "weighted_loss ((loss, n) # rs) = loss * real n + weighted_loss rs"

fun token_total :: "(real \<times> nat) list \<Rightarrow> nat" where
  "token_total [] = 0"
| "token_total ((loss, n) # rs) = n + token_total rs"

text \<open>
  The count the specification asks the weight to be, in the specification's words: the
  tokens that are not padding and receive a loss term, where the causal loss drops one
  token of every sequence for the shift. This is the number of tokens that are not padding
  and not the first of their sequence. The loss itself is computed inside the library.
\<close>

definition spec_scored_tokens :: "encodings \<Rightarrow> nat" where
  "spec_scored_tokens enc = sum_list (map (\<lambda>row. sum_list row - 1) (attention_mask enc))"

text \<open>The number of sequences of a batch that hold at least one token.\<close>

definition nonempty_sequences :: "encodings \<Rightarrow> nat" where
  "nonempty_sequences enc = length (filter (\<lambda>row. 0 < sum_list row) (attention_mask enc))"

section \<open>The comparison\<close>

text \<open>
  The two perplexities are \<^verbatim>\<open>numpy.float64\<close> values, and so is everything line 100 computes
  from them. Arithmetic on them does not raise: a special value follows the IEEE 754 rules
  (numpy at most warns), and on finite values it is exact here. A zero divisor stands for
  \<^verbatim>\<open>+0.0\<close>, the only zero \<^verbatim>\<open>np.exp\<close> can return.
\<close>

fun np_sub :: "np_float \<Rightarrow> np_float \<Rightarrow> np_float" where
  "np_sub (Finite a) (Finite b) = Finite (a - b)"
| "np_sub NaN y = NaN"
| "np_sub x NaN = NaN"
| "np_sub PosInf PosInf = NaN"
| "np_sub NegInf NegInf = NaN"
| "np_sub PosInf y = PosInf"
| "np_sub NegInf y = NegInf"
| "np_sub x PosInf = NegInf"
| "np_sub x NegInf = PosInf"

fun np_div :: "np_float \<Rightarrow> np_float \<Rightarrow> np_float" where
  "np_div (Finite a) (Finite b) =
     (if b = 0 then (if a = 0 then NaN else if 0 < a then PosInf else NegInf)
      else Finite (a / b))"
| "np_div NaN y = NaN"
| "np_div x NaN = NaN"
| "np_div (Finite a) PosInf = Finite 0"
| "np_div (Finite a) NegInf = Finite 0"
| "np_div PosInf (Finite b) = (if b < 0 then NegInf else PosInf)"
| "np_div NegInf (Finite b) = (if b < 0 then PosInf else NegInf)"
| "np_div PosInf PosInf = NaN"
| "np_div PosInf NegInf = NaN"
| "np_div NegInf PosInf = NaN"
| "np_div NegInf NegInf = NaN"

fun np_mul :: "np_float \<Rightarrow> np_float \<Rightarrow> np_float" where
  "np_mul (Finite a) (Finite b) = Finite (a * b)"
| "np_mul NaN y = NaN"
| "np_mul x NaN = NaN"
| "np_mul PosInf (Finite b) = (if 0 < b then PosInf else if b < 0 then NegInf else NaN)"
| "np_mul NegInf (Finite b) = (if 0 < b then NegInf else if b < 0 then PosInf else NaN)"
| "np_mul (Finite a) PosInf = (if 0 < a then PosInf else if a < 0 then NegInf else NaN)"
| "np_mul (Finite a) NegInf = (if 0 < a then NegInf else if a < 0 then PosInf else NaN)"
| "np_mul PosInf PosInf = PosInf"
| "np_mul NegInf NegInf = PosInf"
| "np_mul PosInf NegInf = NegInf"
| "np_mul NegInf PosInf = NegInf"

text \<open>Line 100, \<^verbatim>\<open>((base_ppl - finetuned_ppl) / base_ppl) * 100\<close>.\<close>

definition improvement :: "np_float \<Rightarrow> np_float \<Rightarrow> np_float" where
  "improvement base_ppl finetuned_ppl =
     np_mul (np_div (np_sub base_ppl finetuned_ppl) base_ppl) (Finite 100)"

text \<open>
  The command line of \<^verbatim>\<open>main\<close> (lines 68 to 74), and what lies outside the program: the
  records of the test file at a path, and the tokenizer and the model that
  \<^verbatim>\<open>from_pretrained\<close> loads from a path.
\<close>

record args =
  args_base_model :: string
  args_finetuned_model :: string
  args_test_data :: string
  args_batch_size :: int
  args_max_length :: int

record world =
  load_test_data :: "string \<Rightarrow> py_dict list"
  auto_tokenizer :: "string \<Rightarrow> tokenizer"
  auto_model :: "string \<Rightarrow> causal_lm"

text \<open>
  What \<^verbatim>\<open>main\<close> does to the world, in program order: the loads, the two calls of
  \<^verbatim>\<open>compute_perplexity\<close> with the arguments they are given, \<^verbatim>\<open>del base_model\<close> and
  \<^verbatim>\<open>torch.cuda.empty_cache()\<close>. The two model variables of \<^verbatim>\<open>main\<close> name the models.
\<close>

datatype model_var = BaseModel | FinetunedModel

datatype event =
    LoadTestData string
  | LoadTokenizer string
  | LoadModel model_var string
  | ComputePerplexity model_var tokenizer "py_dict list" int int
  | Del model_var
  | EmptyCache

record report =
  report_base_ppl :: np_float
  report_finetuned_ppl :: np_float
  report_improvement :: np_float

text \<open>
  Lines 76 to 100. An exception of \<^verbatim>\<open>compute_perplexity\<close> is not caught, so it ends the
  run at that call. Printing (lines 76 to 112) and the choice of the device are left out.
\<close>

definition main :: "world \<Rightarrow> args \<Rightarrow> event list \<times> (py_error + report)" where
  "main w a =
     (let test_data = load_test_data w (args_test_data a);
          tokenizer = auto_tokenizer w (args_base_model a);
          base_model = auto_model w (args_base_model a);
          base_events =
            [LoadTestData (args_test_data a),
             LoadTokenizer (args_base_model a),
             LoadModel BaseModel (args_base_model a),
             ComputePerplexity BaseModel tokenizer test_data
               (args_batch_size a) (args_max_length a)]
      in case compute_perplexity base_model tokenizer test_data
                (args_batch_size a) (args_max_length a) of
           Inl e \<Rightarrow> (base_events, Inl e)
         | Inr base_ppl \<Rightarrow>
             (let finetuned_model = auto_model w (args_finetuned_model a);
                  events = base_events @
                    [Del BaseModel,
                     EmptyCache,
                     LoadModel FinetunedModel (args_finetuned_model a),
                     ComputePerplexity FinetunedModel tokenizer test_data
                       (args_batch_size a) (args_max_length a)]
              in case compute_perplexity finetuned_model tokenizer test_data
                        (args_batch_size a) (args_max_length a) of
                   Inl e \<Rightarrow> (events, Inl e)
                 | Inr finetuned_ppl \<Rightarrow>
                     (events,
                      Inr \<lparr>report_base_ppl = base_ppl,
                           report_finetuned_ppl = finetuned_ppl,
                           report_improvement = improvement base_ppl finetuned_ppl\<rparr>)))"

text \<open>
  The memory of the device: the models whose weights are allocated on it, and the models
  whose freed weights the caching allocator of torch still holds. Loading a model
  allocates it, \<^verbatim>\<open>del\<close> drops the only reference to it and so frees its weights into the
  cache, and \<^verbatim>\<open>empty_cache\<close> gives the cache back to the device.
\<close>

record device_memory =
  allocated :: "model_var list"
  cached :: "model_var list"

fun apply_event :: "device_memory \<Rightarrow> event \<Rightarrow> device_memory" where
  "apply_event m (LoadModel v path) = m\<lparr>allocated := v # allocated m\<rparr>"
| "apply_event m (Del v) =
     m\<lparr>allocated := removeAll v (allocated m), cached := v # cached m\<rparr>"
| "apply_event m EmptyCache = m\<lparr>cached := []\<rparr>"
| "apply_event m e = m"

definition memory_after :: "event list \<Rightarrow> device_memory" where
  "memory_after evs = foldl apply_event \<lparr>allocated = [], cached = []\<rparr> evs"

text \<open>Whether an event loads the fine-tuned model.\<close>

fun loads_finetuned :: "event \<Rightarrow> bool" where
  "loads_finetuned (LoadModel FinetunedModel path) = True"
| "loads_finetuned e = False"

section \<open>Stand-ins for the library\<close>

text \<open>
  A tokenizer that keeps the letters \<^verbatim>\<open>x\<close> of a text as its tokens, cuts a text after
  \<^verbatim>\<open>max_length\<close> tokens and pads the rows of a batch to the longest one; two models, one
  whose loss depends on the number of tokens and one whose loss is 1024; three records;
  a world whose test file holds two of them and whose fine-tuned model is the second
  model; and a world with the same test file whose base model is the second model.
\<close>

definition stub_tokenizer :: tokenizer where
  "stub_tokenizer texts max_length =
     (let rows = map (\<lambda>t. take (nat max_length) (filter (\<lambda>c. c = CHR ''x'') t)) texts;
          width = foldr max (map length rows) 0
      in \<lparr>input_ids = map (\<lambda>r. map of_char r @ replicate (width - length r) 0) rows,
          attention_mask = map (\<lambda>r. replicate (length r) 1 @ replicate (width - length r) 0) rows\<rparr>)"

definition stub_lm :: causal_lm where
  "stub_lm enc = (if num_tokens enc = 10 then 2 else if num_tokens enc = 30 then 4 else 0)"

definition diverged_lm :: causal_lm where
  "diverged_lm enc = 1024"

definition mail10 :: py_dict where
  "mail10 = Map.empty(''body'' \<mapsto> PyStr ''xxxxxxxxxx'')"

definition mail30 :: py_dict where
  "mail30 = Map.empty(''subject'' \<mapsto> PyStr ''hi'',
                      ''body'' \<mapsto> PyStr ''xxxxxxxxxxxxxxxxxxxxxxxxxxxxxx'')"

definition mail5 :: py_dict where
  "mail5 = Map.empty(''body'' \<mapsto> PyStr ''xxxxx'')"

definition stub_world :: world where
  "stub_world =
     \<lparr>load_test_data = (\<lambda>path. [mail10, mail30]),
      auto_tokenizer = (\<lambda>path. stub_tokenizer),
      auto_model = (\<lambda>path. if path = ''ft'' then diverged_lm else stub_lm)\<rparr>"

definition diverged_world :: world where
  "diverged_world =
     \<lparr>load_test_data = (\<lambda>path. [mail10, mail30]),
      auto_tokenizer = (\<lambda>path. stub_tokenizer),
      auto_model = (\<lambda>path. if path = ''base'' then diverged_lm else stub_lm)\<rparr>"

definition stub_args :: args where
  "stub_args =
     \<lparr>args_base_model = ''base'', args_finetuned_model = ''ft'',
      args_test_data = ''test.jsonl'', args_batch_size = 1, args_max_length = 512\<rparr>"

section \<open>Rendering\<close>

lemma py_str_get_text:
  "text_or_missing d k \<Longrightarrow> py_str (dict_get d k (PyStr '''')) = field_text d k"
  by (simp add: text_or_missing_def dict_get_def field_text_def
      split: option.splits py_value.splits)

text \<open>
  Claim C5. A record whose fields \<^verbatim>\<open>subject\<close> and \<^verbatim>\<open>body\<close> are each either missing or a
  text renders as the line \<^verbatim>\<open>Subject: \<close> followed by the subject, then an empty line, then
  the body, a missing field counting as the empty text. Rendering is a total function of
  the record, so it cannot fail and two renderings of one record are the same string.
\<close>

theorem render_template:
  assumes "text_or_missing d ''subject''" and "text_or_missing d ''body''"
  shows "render d = ''Subject: '' @ field_text d ''subject'' @ ''\<newline>\<newline>'' @ field_text d ''body''
         \<and> (d' = d \<longrightarrow> render d' = render d)"
  using assms by (simp add: render_def py_str_get_text)

theorem render_template_witness:
  "text_or_missing (Map.empty(''body'' \<mapsto> PyStr ''hello'')) ''subject''
   \<and> text_or_missing (Map.empty(''body'' \<mapsto> PyStr ''hello'')) ''body''
   \<and> render (Map.empty(''body'' \<mapsto> PyStr ''hello'')) = ''Subject: \<newline>\<newline>hello''"
  using render_template [of "Map.empty(''body'' \<mapsto> PyStr ''hello'')"
      "Map.empty(''body'' \<mapsto> PyStr ''hello'')"]
  by (simp add: text_or_missing_def field_text_def)

text \<open>
  Claim C10. A record whose \<^verbatim>\<open>subject\<close> key is present and bound to \<^verbatim>\<open>None\<close> renders with
  the literal text \<^verbatim>\<open>None\<close> in the subject line, whereas the record without the key renders
  with the empty text there: the default of \<^verbatim>\<open>d.get\<close> applies to an absent key only. The
  same holds for \<^verbatim>\<open>body\<close>.
\<close>

theorem render_null_field:
  "render (Map.empty(''subject'' \<mapsto> PyNone)) = ''Subject: None\<newline>\<newline>''
   \<and> render Map.empty = ''Subject: \<newline>\<newline>''
   \<and> render (Map.empty(''body'' \<mapsto> PyNone)) = ''Subject: \<newline>\<newline>None''"
  by (simp add: render_def dict_get_def)

section \<open>The batches of a run\<close>












lemma range_from_step:
  "0 < step \<Longrightarrow> i < n \<Longrightarrow> range_from i n step = i # range_from (i + step) n step"
  by (subst range_from.simps) simp

lemma range_from_stop: "n \<le> i \<Longrightarrow> range_from i n step = []"
  by (subst range_from.simps) simp



section \<open>The aggregated perplexity\<close>

lemma range_from_zero_step: "range_from i n 0 = []"
  by (subst range_from.simps) simp

lemma eval_loop_scores:
  "eval_loop model tok data bs ml ks (sl, st) =
     (sl + weighted_loss (map (batch_score model tok ml) (map (\<lambda>i. py_slice data i (i + bs)) ks)),
      st + token_total (map (batch_score model tok ml) (map (\<lambda>i. py_slice data i (i + bs)) ks)))"
  by (induction ks arbitrary: sl st) (simp_all add: batch_score_def Let_def algebra_simps)

lemma compute_perplexity_scores:
  "compute_perplexity model tok data bs ml =
     (if bs = 0 then Inl ValueError
      else if token_total (batch_scores model tok data bs ml) = 0 then Inl ZeroDivisionError
      else Inr (np_exp (weighted_loss (batch_scores model tok data bs ml)
                          / real (token_total (batch_scores model tok data bs ml)))))"
  by (simp add: compute_perplexity_def py_range_def eval_loop_scores batch_scores_def
      batches_def range_from_zero_step)

lemma DBL_MAX_ge: "2 ^ 1023 \<le> DBL_MAX"
  by (simp add: DBL_MAX_def)

lemma DBL_MAX_less: "DBL_MAX < 2 ^ 1024"
  by (simp add: DBL_MAX_def)

lemma exp_nat_le: "exp (real n) \<le> 3 ^ n"
proof -
  have "exp (real n) = exp 1 ^ n"
    using exp_of_nat_mult [of n "1::real"] by simp
  also have "\<dots> \<le> 3 ^ n"
    by (rule power_mono) (simp_all add: exp_le)
  finally show ?thesis .
qed

lemma exp_nat_ge: "2 ^ n \<le> exp (real n)"
proof -
  have "(2::real) \<le> exp 1"
    using exp_ge_add_one_self [of "1::real"] by simp
  then have "(2::real) ^ n \<le> exp 1 ^ n"
    by (rule power_mono) simp
  also have "exp 1 ^ n = exp (real n)"
    using exp_of_nat_mult [of n "1::real"] by simp
  finally show ?thesis .
qed

lemma exp_small_finite: "x \<le> 4 \<Longrightarrow> exp x \<le> DBL_MAX"
proof -
  assume "x \<le> 4"
  then have "exp x \<le> exp (real 4)" by simp
  also have "\<dots> \<le> 3 ^ 4" by (rule exp_nat_le)
  also have "\<dots> \<le> (2::real) ^ 1023" by simp
  also have "\<dots> \<le> DBL_MAX" by (rule DBL_MAX_ge)
  finally show ?thesis .
qed

lemma exp_1024_overflows: "DBL_MAX < exp 1024"
proof -
  have "DBL_MAX < 2 ^ 1024" by (rule DBL_MAX_less)
  also have "\<dots> \<le> exp (real 1024)" by (rule exp_nat_ge)
  finally show ?thesis by simp
qed

lemma np_exp_finite: "exp x \<le> DBL_MAX \<Longrightarrow> np_exp x = Finite (exp x)"
  by (simp add: np_exp_def)

lemma np_exp_overflow: "DBL_MAX < exp x \<Longrightarrow> np_exp x = PosInf"
  by (simp add: np_exp_def)

text \<open>
  Claim C1. When the batches of a run score \<open>(loss\<^sub>i, tokens\<^sub>i)\<close> and at least one token
  was counted, \<^verbatim>\<open>compute_perplexity\<close> returns \<^verbatim>\<open>np.exp\<close> of the sum of the
  \<open>loss\<^sub>i * tokens\<^sub>i\<close> divided by the sum of the \<open>tokens\<^sub>i\<close>, which is the exponential
  of that quotient whenever the exponential is a finite double. Two batches that score
  (2.0, 10) and (4.0, 30) give \<open>e\<^sup>3\<^sup>.\<^sup>5\<close>, and one batch that scores (0.0, 5) gives 1.
\<close>

theorem perplexity_weighted_mean:
  assumes "rs = batch_scores model tok data bs ml" and "0 < token_total rs"
  shows "compute_perplexity model tok data bs ml
           = Inr (np_exp (weighted_loss rs / real (token_total rs)))
    \<and> (exp (weighted_loss rs / real (token_total rs)) \<le> DBL_MAX \<longrightarrow>
         compute_perplexity model tok data bs ml
           = Inr (Finite (exp (weighted_loss rs / real (token_total rs)))))
    \<and> (rs = [(2, 10), (4, 30)] \<longrightarrow>
         compute_perplexity model tok data bs ml = Inr (Finite (exp (7 / 2))))
    \<and> (rs = [(0, 5)] \<longrightarrow> compute_perplexity model tok data bs ml = Inr (Finite 1))"
proof -
  have nz: "bs \<noteq> 0"
  proof
    assume "bs = 0"
    then have "rs = []"
      by (simp add: assms(1) batch_scores_def batches_def range_from_zero_step)
    with assms(2) show False by simp
  qed
  have main: "compute_perplexity model tok data bs ml
           = Inr (np_exp (weighted_loss rs / real (token_total rs)))"
    using assms nz by (simp add: compute_perplexity_scores)
  have two: "compute_perplexity model tok data bs ml = Inr (Finite (exp (7 / 2)))"
    if "rs = [(2, 10), (4, 30)]"
  proof -
    from that have "weighted_loss rs / real (token_total rs) = 7 / 2" by simp
    with main show ?thesis by (simp add: np_exp_finite exp_small_finite)
  qed
  have one: "compute_perplexity model tok data bs ml = Inr (Finite 1)" if "rs = [(0, 5)]"
  proof -
    from that have "weighted_loss rs / real (token_total rs) = 0" by simp
    with main show ?thesis using exp_small_finite [of 0] by (simp add: np_exp_def)
  qed
  from main two one show ?thesis by (simp add: np_exp_finite)
qed

lemma render_mail10: "render mail10 = ''Subject: \<newline>\<newline>xxxxxxxxxx''"
  by (simp add: render_def dict_get_def mail10_def)

lemma render_mail30: "render mail30 = ''Subject: hi\<newline>\<newline>xxxxxxxxxxxxxxxxxxxxxxxxxxxxxx''"
  by (simp add: render_def dict_get_def mail30_def)

lemma render_mail5: "render mail5 = ''Subject: \<newline>\<newline>xxxxx''"
  by (simp add: render_def dict_get_def mail5_def)

lemma num_tokens_mail10: "num_tokens (stub_tokenizer [render mail10] 512) = 10"
  by (simp add: render_mail10 stub_tokenizer_def num_tokens_def)

lemma num_tokens_mail30: "num_tokens (stub_tokenizer [render mail30] 512) = 30"
  by (simp add: render_mail30 stub_tokenizer_def num_tokens_def)

lemma num_tokens_mail5: "num_tokens (stub_tokenizer [render mail5] 512) = 5"
  by (simp add: render_mail5 stub_tokenizer_def num_tokens_def)

lemma batches_two: "batches [a, b] (Suc 0) = [[a], [b]]"
  by (simp add: batches_def range_from_step range_from_stop py_slice_def)

lemma batches_one: "batches [a] (Suc 0) = [[a]]"
  by (simp add: batches_def range_from_step range_from_stop py_slice_def)

lemma stub_scores_two: "batch_scores stub_lm stub_tokenizer [mail10, mail30] 1 512 = [(2, 10), (4, 30)]"
  by (simp add: batch_scores_def batches_two batch_score_def stub_lm_def
      num_tokens_mail10 num_tokens_mail30)

lemma stub_scores_one: "batch_scores stub_lm stub_tokenizer [mail5] 1 512 = [(0, 5)]"
  by (simp add: batch_scores_def batches_one batch_score_def stub_lm_def num_tokens_mail5)

lemma diverged_scores: "batch_scores diverged_lm stub_tokenizer [mail5] 1 512 = [(1024, 5)]"
  by (simp add: batch_scores_def batches_one batch_score_def diverged_lm_def num_tokens_mail5)

theorem perplexity_weighted_mean_witness:
  "batch_scores stub_lm stub_tokenizer [mail10, mail30] 1 512 = [(2, 10), (4, 30)]
   \<and> compute_perplexity stub_lm stub_tokenizer [mail10, mail30] 1 512 = Inr (Finite (exp (7 / 2)))
   \<and> batch_scores stub_lm stub_tokenizer [mail5] 1 512 = [(0, 5)]
   \<and> compute_perplexity stub_lm stub_tokenizer [mail5] 1 512 = Inr (Finite 1)"
proof -
  have two: "0 < token_total [(2, 10), (4, 30)]" and one: "0 < token_total [(0, 5)]"
    by simp_all
  have "compute_perplexity stub_lm stub_tokenizer [mail10, mail30] 1 512 = Inr (Finite (exp (7 / 2)))"
    using perplexity_weighted_mean [OF stub_scores_two [symmetric] two] by blast
  moreover have "compute_perplexity stub_lm stub_tokenizer [mail5] 1 512 = Inr (Finite 1)"
    using perplexity_weighted_mean [OF stub_scores_one [symmetric] one] by blast
  ultimately show ?thesis
    using stub_scores_two stub_scores_one by blast
qed

text \<open>
  Claim C3. When no token was counted, as when there is no record at all,
  \<^verbatim>\<open>compute_perplexity\<close> raises: \<^verbatim>\<open>ZeroDivisionError\<close> from the division at line 62, or
  \<^verbatim>\<open>ValueError\<close> from \<^verbatim>\<open>range\<close> when the batch size is 0. It returns no number.
\<close>

theorem no_tokens_raises:
  "(token_total (batch_scores model tok data bs ml) = 0 \<longrightarrow>
      compute_perplexity model tok data bs ml
        = Inl (if bs = 0 then ValueError else ZeroDivisionError))
   \<and> compute_perplexity model tok [] bs ml
        = Inl (if bs = 0 then ValueError else ZeroDivisionError)"
proof -
  have "batch_scores model tok [] bs ml = []"
    by (simp add: batch_scores_def batches_def range_from_stop)
  then show ?thesis
    by (simp add: compute_perplexity_scores)
qed

theorem no_tokens_raises_witness:
  "token_total (batch_scores stub_lm stub_tokenizer [] 8 512) = 0
   \<and> compute_perplexity stub_lm stub_tokenizer [] 8 512 = Inl ZeroDivisionError"
  using no_tokens_raises [of stub_lm stub_tokenizer "[]" 8 512]
  by (simp add: batch_scores_def batches_def range_from_stop)

lemma stub_base_ppl:
  "compute_perplexity stub_lm stub_tokenizer [mail10, mail30] 1 512 = Inr (Finite (exp (7 / 2)))"
  by (simp add: compute_perplexity_scores stub_scores_two np_exp_finite exp_small_finite)

lemma diverged_scores_two:
  "batch_scores diverged_lm stub_tokenizer [mail10, mail30] 1 512 = [(1024, 10), (1024, 30)]"
  by (simp add: batch_scores_def batches_two batch_score_def diverged_lm_def
      num_tokens_mail10 num_tokens_mail30)

lemma stub_finetuned_ppl:
  "compute_perplexity diverged_lm stub_tokenizer [mail10, mail30] 1 512 = Inr PosInf"
  using exp_1024_overflows
  by (simp add: compute_perplexity_scores diverged_scores_two np_exp_overflow)

lemma main_stub_result:
  "snd (main stub_world stub_args) =
     Inr \<lparr>report_base_ppl = Finite (exp (7 / 2)), report_finetuned_ppl = PosInf,
          report_improvement = NegInf\<rparr>"
  by (simp add: main_def Let_def stub_world_def stub_args_def stub_base_ppl
      stub_finetuned_ppl improvement_def)

lemma main_diverged_result:
  "snd (main diverged_world stub_args) =
     Inr \<lparr>report_base_ppl = PosInf, report_finetuned_ppl = Finite (exp (7 / 2)),
          report_improvement = NaN\<rparr>"
  by (simp add: main_def Let_def diverged_world_def stub_args_def stub_base_ppl
      stub_finetuned_ppl improvement_def)

lemma improvement_of_inf: "improvement PosInf q = NaN"
  by (cases q) (simp_all add: improvement_def)

lemma main_returns_report:
  assumes "compute_perplexity (auto_model w (args_base_model a))
      (auto_tokenizer w (args_base_model a)) (load_test_data w (args_test_data a))
      (args_batch_size a) (args_max_length a) = Inr p"
    and "compute_perplexity (auto_model w (args_finetuned_model a))
      (auto_tokenizer w (args_base_model a)) (load_test_data w (args_test_data a))
      (args_batch_size a) (args_max_length a) = Inr q"
  shows "snd (main w a) =
     Inr \<lparr>report_base_ppl = p, report_finetuned_ppl = q,
          report_improvement = improvement p q\<rparr>"
  using assms by (simp add: main_def Let_def)

lemma main_second_pass:
  assumes "compute_perplexity (auto_model w (args_base_model a))
      (auto_tokenizer w (args_base_model a)) (load_test_data w (args_test_data a))
      (args_batch_size a) (args_max_length a) = Inr p"
  shows "fst (main w a) ! 7 =
     ComputePerplexity FinetunedModel (auto_tokenizer w (args_base_model a))
       (load_test_data w (args_test_data a)) (args_batch_size a) (args_max_length a)"
  using assms by (simp add: main_def Let_def split: sum.splits)

text \<open>
  Claim C7, as the program has it. When the exponential of the average loss is larger
  than the largest finite double, \<^verbatim>\<open>compute_perplexity\<close> returns \<^verbatim>\<open>inf\<close> and raises
  nothing, and the run of \<^verbatim>\<open>main\<close> goes on. If this happens in the base pass, \<^verbatim>\<open>main\<close>
  goes on to the pass of the fine-tuned model, and when that pass returns, the run ends
  with a report whose base perplexity is \<^verbatim>\<open>inf\<close> and whose improvement is \<^verbatim>\<open>nan\<close>. If it
  happens in the pass of the fine-tuned model, the run ends with a report whose
  fine-tuned perplexity is \<^verbatim>\<open>inf\<close>.
\<close>

theorem perplexity_overflow_is_inf:
  assumes "rs = batch_scores model tok data bs ml"
    and "0 < token_total rs"
    and "DBL_MAX < exp (weighted_loss rs / real (token_total rs))"
  shows "compute_perplexity model tok data bs ml = Inr PosInf
    \<and> (auto_model w (args_base_model a) = model
        \<and> auto_tokenizer w (args_base_model a) = tok
        \<and> load_test_data w (args_test_data a) = data
        \<and> args_batch_size a = bs \<and> args_max_length a = ml \<longrightarrow>
         fst (main w a) ! 7 = ComputePerplexity FinetunedModel tok data bs ml
         \<and> (compute_perplexity (auto_model w (args_finetuned_model a)) tok data bs ml = Inr q
              \<longrightarrow> snd (main w a) =
                Inr \<lparr>report_base_ppl = PosInf, report_finetuned_ppl = q,
                     report_improvement = NaN\<rparr>))
    \<and> (auto_model w (args_finetuned_model a) = model
        \<and> auto_tokenizer w (args_base_model a) = tok
        \<and> load_test_data w (args_test_data a) = data
        \<and> args_batch_size a = bs \<and> args_max_length a = ml
        \<and> compute_perplexity (auto_model w (args_base_model a)) tok data bs ml = Inr p \<longrightarrow>
         snd (main w a) =
           Inr \<lparr>report_base_ppl = p, report_finetuned_ppl = PosInf,
                report_improvement = improvement p PosInf\<rparr>)"
proof -
  have "bs \<noteq> 0"
  proof
    assume "bs = 0"
    then have "rs = []"
      by (simp add: assms(1) batch_scores_def batches_def range_from_zero_step)
    with assms(2) show False by simp
  qed
  with assms have inf: "compute_perplexity model tok data bs ml = Inr PosInf"
    by (simp add: compute_perplexity_scores np_exp_overflow)
  have base: "fst (main w a) ! 7 = ComputePerplexity FinetunedModel tok data bs ml
         \<and> (compute_perplexity (auto_model w (args_finetuned_model a)) tok data bs ml = Inr q
              \<longrightarrow> snd (main w a) =
                Inr \<lparr>report_base_ppl = PosInf, report_finetuned_ppl = q,
                     report_improvement = NaN\<rparr>)"
    if "auto_model w (args_base_model a) = model"
      "auto_tokenizer w (args_base_model a) = tok"
      "load_test_data w (args_test_data a) = data"
      "args_batch_size a = bs" "args_max_length a = ml"
    using that inf main_second_pass [of w a PosInf] main_returns_report [of w a PosInf q]
    by (simp add: improvement_of_inf)
  have ft: "snd (main w a) =
           Inr \<lparr>report_base_ppl = p, report_finetuned_ppl = PosInf,
                report_improvement = improvement p PosInf\<rparr>"
    if "auto_model w (args_finetuned_model a) = model"
      "auto_tokenizer w (args_base_model a) = tok"
      "load_test_data w (args_test_data a) = data"
      "args_batch_size a = bs" "args_max_length a = ml"
      "compute_perplexity (auto_model w (args_base_model a)) tok data bs ml = Inr p"
    using that inf main_returns_report [of w a p PosInf] by simp
  from inf base ft show ?thesis by blast
qed

theorem perplexity_overflow_is_inf_witness:
  "0 < token_total (batch_scores diverged_lm stub_tokenizer [mail10, mail30] 1 512)
   \<and> DBL_MAX < exp (weighted_loss (batch_scores diverged_lm stub_tokenizer [mail10, mail30] 1 512)
        / real (token_total (batch_scores diverged_lm stub_tokenizer [mail10, mail30] 1 512)))
   \<and> auto_model diverged_world (args_base_model stub_args) = diverged_lm
   \<and> auto_model stub_world (args_finetuned_model stub_args) = diverged_lm
   \<and> compute_perplexity diverged_lm stub_tokenizer [mail10, mail30] 1 512 = Inr PosInf
   \<and> snd (main diverged_world stub_args) =
       Inr \<lparr>report_base_ppl = PosInf, report_finetuned_ppl = Finite (exp (7 / 2)),
            report_improvement = NaN\<rparr>
   \<and> snd (main stub_world stub_args) =
       Inr \<lparr>report_base_ppl = Finite (exp (7 / 2)), report_finetuned_ppl = PosInf,
            report_improvement = improvement (Finite (exp (7 / 2))) PosInf\<rparr>"
proof -
  have pos: "0 < token_total [(1024, 10), (1024, 30)]"
    by simp
  have big: "DBL_MAX < exp (weighted_loss [(1024, 10), (1024, 30)]
      / real (token_total [(1024, 10), (1024, 30)]))"
    using exp_1024_overflows by simp
  note run = perplexity_overflow_is_inf [OF diverged_scores_two [symmetric] pos big]
  have base_model: "auto_model diverged_world (args_base_model stub_args) = diverged_lm"
    and ft_model: "auto_model stub_world (args_finetuned_model stub_args) = diverged_lm"
    and ft_other: "auto_model diverged_world (args_finetuned_model stub_args) = stub_lm"
    and base_other: "auto_model stub_world (args_base_model stub_args) = stub_lm"
    and tok1: "auto_tokenizer diverged_world (args_base_model stub_args) = stub_tokenizer"
    and tok2: "auto_tokenizer stub_world (args_base_model stub_args) = stub_tokenizer"
    and data1: "load_test_data diverged_world (args_test_data stub_args) = [mail10, mail30]"
    and data2: "load_test_data stub_world (args_test_data stub_args) = [mail10, mail30]"
    and bs: "args_batch_size stub_args = 1" and ml: "args_max_length stub_args = 512"
    by (simp_all add: diverged_world_def stub_world_def stub_args_def)
  from run [where w = diverged_world and a = stub_args and q = "Finite (exp (7 / 2))"]
  have "snd (main diverged_world stub_args) =
       Inr \<lparr>report_base_ppl = PosInf, report_finetuned_ppl = Finite (exp (7 / 2)),
            report_improvement = NaN\<rparr>"
    using base_model ft_other tok1 data1 bs ml stub_base_ppl by simp
  moreover from run [where w = stub_world and a = stub_args and p = "Finite (exp (7 / 2))"]
  have "snd (main stub_world stub_args) =
       Inr \<lparr>report_base_ppl = Finite (exp (7 / 2)), report_finetuned_ppl = PosInf,
            report_improvement = improvement (Finite (exp (7 / 2))) PosInf\<rparr>"
    using ft_model base_other tok2 data2 bs ml stub_base_ppl by simp
  moreover from run have "compute_perplexity diverged_lm stub_tokenizer [mail10, mail30] 1 512 = Inr PosInf"
    by blast
  ultimately show ?thesis
    using pos big base_model ft_model by (simp add: diverged_scores_two)
qed

text \<open>
  Claim C7 as stated fails: with a fine-tuned model whose loss is 1024 on every batch, the
  second pass returns \<^verbatim>\<open>inf\<close>, and the run ends with a report that holds \<^verbatim>\<open>inf\<close> as the
  fine-tuned perplexity; with such a base model, the run goes through both passes and
  ends with a report that holds \<^verbatim>\<open>inf\<close> as the base perplexity.
\<close>

theorem overflow_not_fatal_counterexample:
  "compute_perplexity diverged_lm stub_tokenizer [mail10, mail30] 1 512 = Inr PosInf
   \<and> snd (main stub_world stub_args) =
     Inr \<lparr>report_base_ppl = Finite (exp (7 / 2)), report_finetuned_ppl = PosInf,
          report_improvement = NegInf\<rparr>
   \<and> snd (main diverged_world stub_args) =
     Inr \<lparr>report_base_ppl = PosInf, report_finetuned_ppl = Finite (exp (7 / 2)),
          report_improvement = NaN\<rparr>"
  using stub_finetuned_ppl main_stub_result main_diverged_result by simp

lemma sum_rows_split:
  "sum_list (map sum_list rows)
     = sum_list (map (\<lambda>row. sum_list row - 1) rows)
       + length (filter (\<lambda>row. 0 < sum_list row) rows)"
proof (induction rows)
  case Nil
  show ?case by simp
next
  case (Cons row rows)
  show ?case
  proof (cases "sum_list row")
    case 0
    with Cons show ?thesis by (simp del: sum_list_eq_0_iff)
  next
    case (Suc m)
    with Cons show ?thesis by (simp del: sum_list_eq_0_iff)
  qed
qed

text \<open>
  Claim C6, as the program has it. The weight of a batch is the sum of its attention
  mask, the number of tokens that are not padding, the first token of each sequence
  included: it is the number of tokens after the first of their sequence, the ones the
  specification counts as scored, plus one for every sequence that holds a token.
\<close>

theorem weight_is_mask_sum:
  "snd (batch_score model tok ml batch) = num_tokens (tok (map render batch) ml)
   \<and> num_tokens enc = spec_scored_tokens enc + nonempty_sequences enc"
  by (simp add: batch_score_def Let_def num_tokens_def spec_scored_tokens_def
      nonempty_sequences_def sum_rows_split)

text \<open>
  Claim C6 as stated fails: a batch of one record whose text has 5 tokens is weighted by
  5, and 4 of its tokens receive a loss term.
\<close>

theorem weight_not_scored_tokens_counterexample:
  "snd (batch_score stub_lm stub_tokenizer 512 [mail5])
     \<noteq> spec_scored_tokens (stub_tokenizer [render mail5] 512)"
  by (simp add: batch_score_def Let_def num_tokens_def spec_scored_tokens_def render_mail5
      stub_tokenizer_def)

lemma main_improvement:
  "snd (main w a) = Inr r \<Longrightarrow>
     report_improvement r = improvement (report_base_ppl r) (report_finetuned_ppl r)"
  by (auto simp: main_def Let_def split: sum.splits)

text \<open>
  Claim C4. For finite positive perplexities the improvement of line 100, which is the
  one \<^verbatim>\<open>main\<close> reports, is \<open>(base - finetuned) / base * 100\<close>; it is negative exactly when
  the fine-tuned perplexity is the larger one; 40 and 30 give 25, and 30 and 40 give
  \<open>- 100 / 3\<close>, which is within 0.01 of -33.33.
\<close>

theorem improvement_formula:
  assumes "0 < b" and "0 < f"
  shows "improvement (Finite b) (Finite f) = Finite ((b - f) / b * 100)
    \<and> ((b - f) / b * 100 < 0 \<longleftrightarrow> b < f)
    \<and> (snd (main w a) = Inr r \<and> report_base_ppl r = Finite b \<and> report_finetuned_ppl r = Finite f
         \<longrightarrow> report_improvement r = Finite ((b - f) / b * 100))
    \<and> improvement (Finite 40) (Finite 30) = Finite 25
    \<and> improvement (Finite 30) (Finite 40) = Finite (- (100 / 3))
    \<and> \<bar>- (100 / 3) - (- 33.33 :: real)\<bar> \<le> 1 / 100"
proof -
  from assms have f: "improvement (Finite b) (Finite f) = Finite ((b - f) / b * 100)"
    by (simp add: improvement_def)
  from assms have s: "(b - f) / b * 100 < 0 \<longleftrightarrow> b < f"
    by (simp add: divide_less_0_iff mult_less_0_iff)
  have m: "report_improvement r = Finite ((b - f) / b * 100)"
    if "snd (main w a) = Inr r" "report_base_ppl r = Finite b" "report_finetuned_ppl r = Finite f"
    using main_improvement [OF that(1)] that(2,3) f by simp
  have e: "improvement (Finite 40) (Finite 30) = Finite 25"
    "improvement (Finite 30) (Finite 40) = Finite (- (100 / 3))"
    by (simp_all add: improvement_def)
  have d: "\<bar>- (100 / 3) - (- 33.33 :: real)\<bar> \<le> 1 / 100" by simp
  from f s m e d show ?thesis by blast
qed

theorem improvement_formula_witness:
  "(0::real) < 40 \<and> (0::real) < 30
   \<and> improvement (Finite 40) (Finite 30) = Finite ((40 - 30) / 40 * 100)
   \<and> \<not> ((40 - 30) / 40 * 100 < (0::real))"
  using improvement_formula [of 40 30] by simp

section \<open>The two passes of a run\<close>

lemma main_stub_events:
  "fst (main stub_world stub_args) =
     [LoadTestData ''test.jsonl'', LoadTokenizer ''base'', LoadModel BaseModel ''base'',
      ComputePerplexity BaseModel stub_tokenizer [mail10, mail30] 1 512,
      Del BaseModel, EmptyCache, LoadModel FinetunedModel ''ft'',
      ComputePerplexity FinetunedModel stub_tokenizer [mail10, mail30] 1 512]"
  by (simp add: main_def Let_def stub_world_def stub_args_def stub_base_ppl
      stub_finetuned_ppl)

text \<open>
  Claim C8. In every run of \<^verbatim>\<open>main\<close>, whenever the fine-tuned model is loaded, the base
  model has been deleted and the cache emptied before, and the device holds no model at
  that moment; at no point of the run are both models allocated. When the base pass
  returns, the run goes on with \<^verbatim>\<open>del base_model\<close>, \<^verbatim>\<open>empty_cache()\<close> and the load of the
  fine-tuned model, in this order.
\<close>

theorem base_released_before_finetuned:
  "(\<forall>i < length (fst (main w a)).
      loads_finetuned (fst (main w a) ! i) \<longrightarrow>
        memory_after (take i (fst (main w a))) = \<lparr>allocated = [], cached = []\<rparr>
        \<and> Del BaseModel \<in> set (take i (fst (main w a)))
        \<and> EmptyCache \<in> set (take i (fst (main w a))))
   \<and> (\<forall>i \<le> length (fst (main w a)).
        \<not> (BaseModel \<in> set (allocated (memory_after (take i (fst (main w a)))))
           \<and> FinetunedModel \<in> set (allocated (memory_after (take i (fst (main w a)))))))
   \<and> (compute_perplexity (auto_model w (args_base_model a))
         (auto_tokenizer w (args_base_model a)) (load_test_data w (args_test_data a))
         (args_batch_size a) (args_max_length a) = Inr p \<longrightarrow>
        fst (main w a) ! 4 = Del BaseModel
        \<and> fst (main w a) ! 5 = EmptyCache
        \<and> fst (main w a) ! 6 = LoadModel FinetunedModel (args_finetuned_model a))"
  by (simp add: main_def Let_def memory_after_def All_less_Suc
      less_Suc_eq_le [symmetric] split: sum.splits)

theorem base_released_before_finetuned_witness:
  "6 < length (fst (main stub_world stub_args))
   \<and> loads_finetuned (fst (main stub_world stub_args) ! 6)
   \<and> memory_after (take 6 (fst (main stub_world stub_args))) = \<lparr>allocated = [], cached = []\<rparr>
   \<and> memory_after (take 4 (fst (main stub_world stub_args))) = \<lparr>allocated = [BaseModel], cached = []\<rparr>
   \<and> memory_after (fst (main stub_world stub_args)) = \<lparr>allocated = [FinetunedModel], cached = []\<rparr>"
  using base_released_before_finetuned [of stub_world stub_args]
  by (simp add: main_stub_events memory_after_def)

lemma batch_scores_inputs:
  "batch_scores model tok data bs ml
     = map (\<lambda>enc. (model enc, num_tokens enc)) (model_inputs tok data bs ml)"
  by (simp add: batch_scores_def model_inputs_def batch_score_def Let_def comp_def)

text \<open>
  Claim C9. Every call of \<^verbatim>\<open>compute_perplexity\<close> in a run of \<^verbatim>\<open>main\<close> is given the
  tokenizer loaded from the base model path, the records of the test file, and the batch
  size and the maximal length of the command line; the two reported perplexities are the
  results of these calls for the base and the fine-tuned model. The encodings a model is
  called with are fixed by these four arguments, so both models see the same batches,
  tokenized and cut the same way.
\<close>

theorem passes_share_inputs:
  "(\<forall>e \<in> set (fst (main w a)). \<forall>v tk d bs ml.
      e = ComputePerplexity v tk d bs ml \<longrightarrow>
        tk = auto_tokenizer w (args_base_model a)
        \<and> d = load_test_data w (args_test_data a)
        \<and> bs = args_batch_size a
        \<and> ml = args_max_length a)
   \<and> (snd (main w a) = Inr r \<longrightarrow>
        compute_perplexity (auto_model w (args_base_model a))
          (auto_tokenizer w (args_base_model a)) (load_test_data w (args_test_data a))
          (args_batch_size a) (args_max_length a) = Inr (report_base_ppl r)
        \<and> compute_perplexity (auto_model w (args_finetuned_model a))
          (auto_tokenizer w (args_base_model a)) (load_test_data w (args_test_data a))
          (args_batch_size a) (args_max_length a) = Inr (report_finetuned_ppl r))
   \<and> batch_scores model tok data bs' ml'
        = map (\<lambda>enc. (model enc, num_tokens enc)) (model_inputs tok data bs' ml')"
proof -
  have ev: "\<forall>e \<in> set (fst (main w a)). \<forall>v tk d bs ml.
      e = ComputePerplexity v tk d bs ml \<longrightarrow>
        tk = auto_tokenizer w (args_base_model a)
        \<and> d = load_test_data w (args_test_data a)
        \<and> bs = args_batch_size a
        \<and> ml = args_max_length a"
    by (simp add: main_def Let_def split: sum.splits)
  have res: "compute_perplexity (auto_model w (args_base_model a))
          (auto_tokenizer w (args_base_model a)) (load_test_data w (args_test_data a))
          (args_batch_size a) (args_max_length a) = Inr (report_base_ppl r)
        \<and> compute_perplexity (auto_model w (args_finetuned_model a))
          (auto_tokenizer w (args_base_model a)) (load_test_data w (args_test_data a))
          (args_batch_size a) (args_max_length a) = Inr (report_finetuned_ppl r)"
    if "snd (main w a) = Inr r"
    using that by (auto simp: main_def Let_def split: sum.splits)
  from ev res batch_scores_inputs [of model tok data bs' ml'] show ?thesis
    by blast
qed

theorem passes_share_inputs_witness:
  "ComputePerplexity BaseModel stub_tokenizer [mail10, mail30] 1 512
     \<in> set (fst (main stub_world stub_args))
   \<and> ComputePerplexity FinetunedModel stub_tokenizer [mail10, mail30] 1 512
     \<in> set (fst (main stub_world stub_args))
   \<and> auto_tokenizer stub_world (args_base_model stub_args) = stub_tokenizer
   \<and> load_test_data stub_world (args_test_data stub_args) = [mail10, mail30]
   \<and> args_batch_size stub_args = 1 \<and> args_max_length stub_args = 512"
proof -
  have base: "ComputePerplexity BaseModel stub_tokenizer [mail10, mail30] 1 512
      \<in> set (fst (main stub_world stub_args))"
    and ft: "ComputePerplexity FinetunedModel stub_tokenizer [mail10, mail30] 1 512
      \<in> set (fst (main stub_world stub_args))"
    by (simp_all add: main_stub_events)
  from passes_share_inputs [of stub_world stub_args] ft
  have "stub_tokenizer = auto_tokenizer stub_world (args_base_model stub_args)
      \<and> [mail10, mail30] = load_test_data stub_world (args_test_data stub_args)
      \<and> 1 = args_batch_size stub_args \<and> 512 = args_max_length stub_args"
    by blast
  with base ft show ?thesis by simp
qed

end
